theory Spec2Isabelle
  imports Complex_Main
begin

section \<open>Forecast records of the weather provider\<close>

text \<open>
  An element \<open>f\<close> of \<open>forecast_list\<close> is a JSON object. Its values have the JSON types
  of the provider's schema (a string, numbers, nested objects, a list of objects); every
  key may be absent, which is \<open>None\<close>. Field \<open>j_k\<close> stands for the JSON key \<open>k\<close>.
  Numbers are finite (JSON has no NaN or infinity), so the comparisons of the script are
  the comparisons of the reals.
\<close>

record main_obj =
  j_temp :: "real option"
  j_humidity :: "real option"

record wind_obj =
  j_speed :: "real option"

record weather_obj =
  j_description :: "string option"

record rain_obj =
  j_3h :: "real option"

record forecast =
  j_dt_txt :: "string option"
  j_main :: "main_obj option"
  j_wind :: "wind_obj option"
  j_weather :: "weather_obj list option"
  j_rain :: "rain_obj option"

text \<open>
  The ways the script stops: a missing key (\<open>d[k]\<close> raises \<open>KeyError\<close>), an empty
  list read at index 0, a division by zero, and \<open>st.stop()\<close> after the warning that no
  forecast is available for the date.
\<close>

datatype error = KeyError string | IndexError | ZeroDivisionError | NoForecastData

text \<open>\<open>d[k]\<close> on a dict.\<close>

definition getitem :: "string \<Rightarrow> 'a option \<Rightarrow> error + 'a" where
  "getitem k v = (case v of None \<Rightarrow> Inl (KeyError k) | Some x \<Rightarrow> Inr x)"

text \<open>\<open>xs[0]\<close> on a list.\<close>

definition getitem0 :: "'a list \<Rightarrow> error + 'a" where
  "getitem0 xs = (case xs of [] \<Rightarrow> Inl IndexError | x # _ \<Rightarrow> Inr x)"

text \<open>\<open>d.get(k, default)\<close> on a dict.\<close>

definition dict_get :: "'a option \<Rightarrow> 'a \<Rightarrow> 'a" where
  "dict_get v d = (case v of None \<Rightarrow> d | Some x \<Rightarrow> x)"

text \<open>Sequencing: the first exception raised ends the evaluation.\<close>

definition bind :: "error + 'a \<Rightarrow> ('a \<Rightarrow> error + 'b) \<Rightarrow> error + 'b" where
  "bind m k = (case m of Inl e \<Rightarrow> Inl e | Inr x \<Rightarrow> k x)"

text \<open>\<open>s.startswith(p)\<close>.\<close>

fun startswith :: "string \<Rightarrow> string \<Rightarrow> bool" where
  "startswith s [] = True"
| "startswith [] (c # p) = False"
| "startswith (a # s) (c # p) = (a = c \<and> startswith s p)"

section \<open>Filtering for the selected date\<close>

text \<open>
  \<open>selected_forecast = [f for f in forecast_list if f["dt_txt"].startswith(str(date_selected))]\<close>.
  The parameter \<open>date_selected\<close> is the string \<open>str(date_selected)\<close>, an ISO date
  \<open>YYYY-MM-DD\<close>.
\<close>

fun selected_forecast :: "string \<Rightarrow> forecast list \<Rightarrow> error + forecast list" where
  "selected_forecast date_selected [] = Inr []"
| "selected_forecast date_selected (f # fs) =
     bind (getitem ''dt_txt'' (j_dt_txt f)) (\<lambda>dt.
     bind (selected_forecast date_selected fs) (\<lambda>rest.
       Inr (if startswith dt date_selected then f # rest else rest)))"

section \<open>The data frame\<close>

record row =
  time :: string
  temperature :: real
  humidity :: real
  wind_speed :: real
  weather :: string
  rain :: real

text \<open>
  One dict of the list the data frame is built from; the entries are evaluated in the
  order they are written.
\<close>

definition df_row :: "forecast \<Rightarrow> error + row" where
  "df_row f =
     bind (getitem ''dt_txt'' (j_dt_txt f)) (\<lambda>c_time.
     bind (getitem ''main'' (j_main f)) (\<lambda>m1.
     bind (getitem ''temp'' (j_temp m1)) (\<lambda>c_temperature.
     bind (getitem ''main'' (j_main f)) (\<lambda>m2.
     bind (getitem ''humidity'' (j_humidity m2)) (\<lambda>c_humidity.
     bind (getitem ''wind'' (j_wind f)) (\<lambda>w1.
     bind (getitem ''speed'' (j_speed w1)) (\<lambda>c_wind_speed.
     bind (getitem ''weather'' (j_weather f)) (\<lambda>ws.
     bind (getitem0 ws) (\<lambda>w0.
     bind (getitem ''description'' (j_description w0)) (\<lambda>c_weather.
       Inr \<lparr>time = c_time, temperature = c_temperature, humidity = c_humidity,
            wind_speed = c_wind_speed, weather = c_weather,
            rain = dict_get (j_3h (dict_get (j_rain f) \<lparr>j_3h = None\<rparr>)) 0\<rparr>))))))))))"

text \<open>\<open>df = pd.DataFrame([{...} for f in selected_forecast])\<close>: the rows, in order.\<close>

fun df :: "forecast list \<Rightarrow> error + row list" where
  "df [] = Inr []"
| "df (f # fs) =
     bind (df_row f) (\<lambda>r.
     bind (df fs) (\<lambda>rs. Inr (r # rs)))"

section \<open>Weather risk categories\<close>

definition weather_risk :: "real \<Rightarrow> real \<Rightarrow> real \<Rightarrow> real \<Rightarrow> string" where
  "weather_risk temp wind rain' humidity' =
     (if temp \<ge> 35 then ''Very Hot''
      else if temp \<le> 10 then ''Very Cold''
      else if wind \<ge> 10 then ''Very Windy''
      else if rain' > 2 then ''Very Wet''
      else if humidity' \<ge> 80 \<and> 20 \<le> temp \<and> temp \<le> 32 then ''Very Uncomfortable''
      else ''Comfortable'')"

text \<open>\<open>df["Condition"] = df.apply(lambda row: weather_risk(...), axis=1)\<close>.\<close>

definition Condition :: "row list \<Rightarrow> string list" where
  "Condition rows =
     map (\<lambda>r. weather_risk (temperature r) (wind_speed r) (rain r) (humidity r)) rows"

section \<open>Risk assessment\<close>

text \<open>
  \<open>Series.unique()\<close> of pandas: the distinct values in order of appearance.
\<close>

fun unique :: "'a list \<Rightarrow> 'a list" where
  "unique [] = []"
| "unique (x # xs) = x # unique (filter (\<lambda>y. y \<noteq> x) xs)"

text \<open>
  \<open>Series.value_counts()\<close> of pandas: one entry per distinct value with the number of
  its occurrences, most frequent first. The library documents the descending order only;
  here values of equal count stay in order of appearance (the sort is stable).
  \<open>to_dict()\<close> keeps the order, so the dict is the association list.
\<close>

definition value_counts :: "'a list \<Rightarrow> ('a \<times> nat) list" where
  "value_counts xs =
     sort_key (\<lambda>(v, c). - int c) (map (\<lambda>v. (v, count_list xs v)) (unique xs))"

definition risk_counts :: "row list \<Rightarrow> (string \<times> nat) list" where
  "risk_counts rows = value_counts (Condition rows)"

definition total_slots :: "row list \<Rightarrow> nat" where
  "total_slots rows = length rows"

text \<open>
  Rounding to the nearest integer, a tie going to the even one.
\<close>

definition round_half_even :: "real \<Rightarrow> int" where
  "round_half_even x =
     (let f = \<lfloor>x\<rfloor>; d = x - of_int f
      in if d < 1 / 2 then f else if d > 1 / 2 then f + 1
         else if even f then f else f + 1)"

text \<open>
  Python floats are IEEE 754 binary64 numbers (doubles). A double is modelled by the real
  number it stands for; an operation returns the double nearest to the exact result, a
  tie going to the even significand. \<open>double_exponent x\<close> is the binary exponent of a
  positive \<open>x\<close>, the \<open>e\<close> with \<open>2 ^ e \<le> x < 2 ^ (e + 1)\<close>; a double has 53 significant
  bits, so the doubles near \<open>x\<close> are the multiples of \<open>2 ^ (e - 52)\<close>, and below
  \<open>2 ^ (-1022)\<close> (the subnormal range) the multiples of \<open>2 ^ (-1074)\<close>. Overflow to
  infinity is left out: the values of the script are quotients of a count by the total and
  their products with 100, which stay below 128.
\<close>

function double_exponent :: "real \<Rightarrow> int" where
  "double_exponent x =
     (if x \<le> 0 then 0
      else if 2 \<le> x then double_exponent (x / 2) + 1
      else if x < 1 then double_exponent (x * 2) - 1
      else 0)"
  by pat_completeness auto
termination
proof (relation "measure (\<lambda>x. nat \<bar>\<lfloor>log 2 x\<rfloor>\<bar>)")
  show "wf (measure (\<lambda>x. nat \<bar>\<lfloor>log 2 x\<rfloor>\<bar>))"
    by simp
next
  fix x :: real
  assume "\<not> x \<le> 0" and "2 \<le> x"
  then have "log 2 (x / 2) = log 2 x - 1" and "1 \<le> log 2 x"
    by (simp_all add: log_divide)
  then have "\<lfloor>log 2 (x / 2)\<rfloor> = \<lfloor>log 2 x\<rfloor> - 1" and "1 \<le> \<lfloor>log 2 x\<rfloor>"
    by (simp_all add: le_floor_iff)
  then show "(x / 2, x) \<in> measure (\<lambda>x. nat \<bar>\<lfloor>log 2 x\<rfloor>\<bar>)"
    by simp
next
  fix x :: real
  assume "\<not> x \<le> 0" and "\<not> 2 \<le> x" and "x < 1"
  then have "log 2 (x * 2) = log 2 x + 1" and "log 2 x < 0"
    by (simp_all add: log_mult)
  then have "\<lfloor>log 2 (x * 2)\<rfloor> = \<lfloor>log 2 x\<rfloor> + 1" and "\<lfloor>log 2 x\<rfloor> < 0"
    by (simp_all add: floor_less_iff)
  then have "nat \<bar>\<lfloor>log 2 (x * 2)\<rfloor>\<bar> < nat \<bar>\<lfloor>log 2 x\<rfloor>\<bar>"
    by linarith
  then show "(x * 2, x) \<in> measure (\<lambda>x. nat \<bar>\<lfloor>log 2 x\<rfloor>\<bar>)"
    by simp
qed

declare double_exponent.simps [simp del]

definition round_double :: "real \<Rightarrow> real" where
  "round_double x =
     (let q = 2 powi (max (double_exponent \<bar>x\<bar>) (- 1022) - 52)
      in of_int (round_half_even (x / q)) * q)"

text \<open>
  \<open>probability = (count / total_slots) * 100\<close>: the quotient of the two integers is the
  double nearest to the exact quotient, and its product with 100 is rounded again.
\<close>

definition probability :: "nat \<Rightarrow> nat \<Rightarrow> error + real" where
  "probability count total' =
     (if total' = 0 then Inl ZeroDivisionError
      else Inr (round_double (round_double (real count / real total') * 100)))"

text \<open>
  The number printed by \<open>{probability:.1f}\<close>: the multiple of one tenth nearest to the
  exact value of the double, a tie going to the even digit.
\<close>

definition format_1f :: "real \<Rightarrow> real" where
  "format_1f p = of_int (round_half_even (p * 10)) / 10"

record line =
  line_condition :: string
  line_count :: nat
  line_probability :: real
  line_shown :: real

text \<open>The loop over \<open>risk_counts.items()\<close> that writes one line per condition.\<close>

fun condition_probabilities :: "(string \<times> nat) list \<Rightarrow> nat \<Rightarrow> error + line list" where
  "condition_probabilities [] total' = Inr []"
| "condition_probabilities ((condition, count) # items) total' =
     bind (probability count total') (\<lambda>p.
     bind (condition_probabilities items total') (\<lambda>ls.
       Inr (\<lparr>line_condition = condition, line_count = count, line_probability = p,
              line_shown = format_1f p\<rparr> # ls)))"

section \<open>Summary insight\<close>

text \<open>\<open>sep.join(xs)\<close>.\<close>

fun join :: "string \<Rightarrow> string list \<Rightarrow> string" where
  "join sep [] = []"
| "join sep [x] = x"
| "join sep (x # y # ys) = x @ sep @ join sep (y # ys)"

text \<open>
  The advisory sentences. A string is the UTF-8 bytes of the script's text; each sentence
  starts with a blank, a pictograph and a blank.
\<close>

definition advice_hot :: string where
  "advice_hot = '' '' @ [CHR 0xF0, CHR 0x9F, CHR 0xA5, CHR 0xB5]
     @ '' Stay hydrated and avoid peak afternoon heat.''"

definition advice_cold :: string where
  "advice_cold = '' '' @ [CHR 0xF0, CHR 0x9F, CHR 0xA5, CHR 0xB6]
     @ '' Wear layers and protect against the cold.''"

definition advice_windy :: string where
  "advice_windy = '' '' @ [CHR 0xF0, CHR 0x9F, CHR 0x92, CHR 0xA8]
     @ '' Be cautious with outdoor activities.''"

definition advice_wet :: string where
  "advice_wet = '' '' @ [CHR 0xF0, CHR 0x9F, CHR 0x8C, CHR 0xA7, CHR 0xEF, CHR 0xB8, CHR 0x8F]
     @ '' Carry rain gear or reconsider outdoor plans.''"

definition advice_uncomfortable :: string where
  "advice_uncomfortable = '' '' @ [CHR 0xF0, CHR 0x9F, CHR 0x98, CHR 0x93]
     @ '' High humidity may cause discomfort.''"

definition advice_comfortable :: string where
  "advice_comfortable = '' '' @ [CHR 0xE2, CHR 0x9C, CHR 0x85]
     @ '' Great conditions for outdoor activities!''"

definition summary :: "string \<Rightarrow> string \<Rightarrow> row list \<Rightarrow> string" where
  "summary selected_place date_selected rows =
     (let unique_conditions = unique (Condition rows);
          s0 = ''For '' @ selected_place @ '' on '' @ date_selected
                 @ '', conditions are mostly: '' @ join '', '' unique_conditions @ ''.'';
          s1 = (if ''Very Hot'' \<in> set unique_conditions then s0 @ advice_hot else s0);
          s2 = (if ''Very Cold'' \<in> set unique_conditions then s1 @ advice_cold else s1);
          s3 = (if ''Very Windy'' \<in> set unique_conditions then s2 @ advice_windy else s2);
          s4 = (if ''Very Wet'' \<in> set unique_conditions then s3 @ advice_wet else s3);
          s5 = (if ''Very Uncomfortable'' \<in> set unique_conditions
                then s4 @ advice_uncomfortable else s4);
          s6 = (if ''Comfortable'' \<in> set unique_conditions
                then s5 @ advice_comfortable else s5)
      in s6)"

section \<open>The run\<close>

record run =
  run_df :: "row list"
  run_Condition :: "string list"
  run_risk_counts :: "(string \<times> nat) list"
  run_total_slots :: nat
  run_lines :: "line list"
  run_summary :: string

text \<open>
  The script from \<open>forecast_list\<close> on: the filter, the stop on an empty selection, the
  data frame, the conditions, the counts and probabilities, the summary.
\<close>

definition app :: "string \<Rightarrow> string \<Rightarrow> forecast list \<Rightarrow> error + run" where
  "app selected_place date_selected forecast_list =
     bind (selected_forecast date_selected forecast_list) (\<lambda>sel.
       if sel = [] then Inl NoForecastData
       else
         bind (df sel) (\<lambda>rows.
         bind (condition_probabilities (risk_counts rows) (total_slots rows)) (\<lambda>ls.
           Inr \<lparr>run_df = rows, run_Condition = Condition rows,
                run_risk_counts = risk_counts rows, run_total_slots = total_slots rows,
                run_lines = ls,
                run_summary = summary selected_place date_selected rows\<rparr>)))"

section \<open>The specification's vocabulary\<close>

text \<open>
  The definitions of this section follow the words of the specification, not the script;
  the theorems compare them with the script.
\<close>

text \<open>The closed enumeration of risk categories, as the strings the script returns.\<close>

definition RiskCategory :: "string list" where
  "RiskCategory =
     [''Very Hot'', ''Very Cold'', ''Very Windy'', ''Very Wet'', ''Very Uncomfortable'',
      ''Comfortable'']"

text \<open>
  The specification's priority list: rule and category, in priority order, over
  temperature, wind speed, precipitation and humidity.
\<close>

definition priority_rules :: "((real \<Rightarrow> real \<Rightarrow> real \<Rightarrow> real \<Rightarrow> bool) \<times> string) list" where
  "priority_rules =
     [(\<lambda>t w r h. t \<ge> 35, ''Very Hot''),
      (\<lambda>t w r h. t \<le> 10, ''Very Cold''),
      (\<lambda>t w r h. w \<ge> 10, ''Very Windy''),
      (\<lambda>t w r h. r > 2, ''Very Wet''),
      (\<lambda>t w r h. h \<ge> 80 \<and> 20 \<le> t \<and> t \<le> 32, ''Very Uncomfortable'')]"

text \<open>First matching rule wins; the default when none matches.\<close>

fun first_match ::
  "((real \<Rightarrow> real \<Rightarrow> real \<Rightarrow> real \<Rightarrow> bool) \<times> string) list \<Rightarrow> string
     \<Rightarrow> real \<Rightarrow> real \<Rightarrow> real \<Rightarrow> real \<Rightarrow> string" where
  "first_match [] dflt t w r h = dflt"
| "first_match ((p, c) # rules) dflt t w r h =
     (if p t w r h then c else first_match rules dflt t w r h)"

text \<open>
  A record has its required fields when temperature, humidity, wind speed and description
  are present (the description is that of the first entry of the weather list).
\<close>

definition has_required :: "forecast \<Rightarrow> bool" where
  "has_required f =
     ((case j_main f of None \<Rightarrow> False
        | Some m \<Rightarrow> j_temp m \<noteq> None \<and> j_humidity m \<noteq> None)
      \<and> (case j_wind f of None \<Rightarrow> False | Some w \<Rightarrow> j_speed w \<noteq> None)
      \<and> (case j_weather f of None \<Rightarrow> False | Some [] \<Rightarrow> False
          | Some (w0 # _) \<Rightarrow> j_description w0 \<noteq> None))"

text \<open>
  The date component of a timestamp \<open>YYYY-MM-DD HH:MM:SS\<close> is its first ten characters;
  a record is on the target date when its timestamp's date component equals it.
\<close>

definition on_date :: "string \<Rightarrow> forecast \<Rightarrow> bool" where
  "on_date d f = (case j_dt_txt f of None \<Rightarrow> False | Some s \<Rightarrow> take 10 s = d)"

text \<open>
  A row is the forecast slot of a record: it carries the record's timestamp, temperature,
  humidity, wind speed and description, and the record's three-hour precipitation, 0 when
  the record has none.
\<close>

definition is_slot_of :: "row \<Rightarrow> forecast \<Rightarrow> bool" where
  "is_slot_of r f =
     (j_dt_txt f = Some (time r)
      \<and> (case j_main f of None \<Rightarrow> False
          | Some m \<Rightarrow> j_temp m = Some (temperature r) \<and> j_humidity m = Some (humidity r))
      \<and> (case j_wind f of None \<Rightarrow> False | Some w \<Rightarrow> j_speed w = Some (wind_speed r))
      \<and> (case j_weather f of None \<Rightarrow> False | Some [] \<Rightarrow> False
          | Some (w0 # _) \<Rightarrow> j_description w0 = Some (weather r))
      \<and> rain r = (case j_rain f of None \<Rightarrow> 0
                   | Some rn \<Rightarrow> (case j_3h rn of None \<Rightarrow> 0 | Some v \<Rightarrow> v)))"

text \<open>
  The distinct values of a list in order of first occurrence, kept with the values seen
  so far.
\<close>

fun distinct_in_order :: "'a list \<Rightarrow> 'a list \<Rightarrow> 'a list" where
  "distinct_in_order seen [] = []"
| "distinct_in_order seen (x # xs) =
     (if x \<in> set seen then distinct_in_order seen xs
      else x # distinct_in_order (x # seen) xs)"

text \<open>
  The advisory clause of each category, in the fixed check order, and the summary: the
  base sentence, then the clause of every category present.
\<close>

definition advisory_clauses :: "(string \<times> string) list" where
  "advisory_clauses =
     [(''Very Hot'', advice_hot), (''Very Cold'', advice_cold),
      (''Very Windy'', advice_windy), (''Very Wet'', advice_wet),
      (''Very Uncomfortable'', advice_uncomfortable),
      (''Comfortable'', advice_comfortable)]"

definition base_sentence :: "string \<Rightarrow> string \<Rightarrow> string list \<Rightarrow> string" where
  "base_sentence place date conds =
     ''For '' @ place @ '' on '' @ date @ '', conditions are mostly: ''
       @ join '', '' (distinct_in_order [] conds) @ ''.''"

definition spec_summary :: "string \<Rightarrow> string \<Rightarrow> string list \<Rightarrow> string" where
  "spec_summary place date conds =
     base_sentence place date conds
       @ concat (map snd (filter (\<lambda>(c, a). c \<in> set conds) advisory_clauses))"

section \<open>Auxiliary facts\<close>

lemma bind_simps [simp]: "bind (Inl e) k = Inl e" "bind (Inr x) k = k x"
  by (simp_all add: bind_def)

lemma bind_Inr_iff: "bind m k = Inr y \<longleftrightarrow> (\<exists>x. m = Inr x \<and> k x = Inr y)"
  by (cases m) simp_all

lemma getitem_simps [simp]: "getitem k None = Inl (KeyError k)" "getitem k (Some x) = Inr x"
  by (simp_all add: getitem_def)

lemma startswith_take: "startswith s p \<longleftrightarrow> take (length p) s = p"
  by (induction s p rule: startswith.induct) auto

lemma selected_forecast_Inr:
  "selected_forecast d fl = Inr sel \<longleftrightarrow>
     (\<forall>f\<in>set fl. j_dt_txt f \<noteq> None)
     \<and> sel = filter (\<lambda>f. case j_dt_txt f of None \<Rightarrow> False | Some s \<Rightarrow> startswith s d) fl"
proof (induction fl arbitrary: sel)
  case Nil
  show ?case by auto
next
  case (Cons f fl)
  show ?case
  proof (cases "j_dt_txt f")
    case None
    then show ?thesis by simp
  next
    case (Some s)
    then show ?thesis
      using Cons.IH by (auto simp: bind_Inr_iff)
  qed
qed

lemma selected_forecast_on_date:
  assumes "length d = 10" and "\<forall>f\<in>set fl. j_dt_txt f \<noteq> None"
  shows "selected_forecast d fl = Inr (filter (on_date d) fl)"
proof -
  have "(case j_dt_txt f of None \<Rightarrow> False | Some s \<Rightarrow> startswith s d) = on_date d f" for f
    using assms(1) by (simp add: on_date_def startswith_take split: option.splits)
  then show ?thesis
    using assms(2) by (simp add: selected_forecast_Inr)
qed

lemma getitem_Inr_iff: "getitem k v = Inr x \<longleftrightarrow> v = Some x"
  by (cases v) simp_all

lemma getitem0_Inr_iff: "getitem0 xs = Inr x \<longleftrightarrow> (\<exists>rest. xs = x # rest)"
  by (cases xs) (simp_all add: getitem0_def)

lemma bind_Inl_iff: "bind m k = Inl e \<longleftrightarrow> m = Inl e \<or> (\<exists>x. m = Inr x \<and> k x = Inl e)"
  by (cases m) simp_all

lemma getitem_Inl: "getitem k v = Inl e \<Longrightarrow> e = KeyError k"
  by (cases v) simp_all

lemma getitem0_Inl: "getitem0 xs = Inl e \<Longrightarrow> e = IndexError"
  by (cases xs) (simp_all add: getitem0_def)

lemma df_row_error: "df_row f = Inl e \<Longrightarrow> e = IndexError \<or> (\<exists>k. e = KeyError k)"
  unfolding df_row_def bind_Inl_iff
  by (elim disjE exE conjE) (auto dest: getitem_Inl getitem0_Inl)

lemma df_row_Inr_slot: "df_row f = Inr r \<Longrightarrow> is_slot_of r f \<and> has_required f"
  unfolding df_row_def bind_Inr_iff getitem_Inr_iff getitem0_Inr_iff
  by (auto simp: has_required_def is_slot_of_def dict_get_def split: option.splits)

lemma df_row_missing: "\<not> has_required f \<Longrightarrow> \<exists>e. df_row f = Inl e"
  by (cases "df_row f") (auto dest: df_row_Inr_slot)

lemma df_row_slot:
  assumes "j_dt_txt f \<noteq> None" and "has_required f"
  shows "\<exists>r. df_row f = Inr r \<and> is_slot_of r f"
proof -
  obtain s where s: "j_dt_txt f = Some s"
    using assms(1) by auto
  obtain m t h where m: "j_main f = Some m" "j_temp m = Some t" "j_humidity m = Some h"
    using assms(2) by (auto simp: has_required_def split: option.splits)
  obtain w v where w: "j_wind f = Some w" "j_speed w = Some v"
    using assms(2) by (auto simp: has_required_def split: option.splits)
  obtain w0 ws c where ws: "j_weather f = Some (w0 # ws)" "j_description w0 = Some c"
    using assms(2) by (auto simp: has_required_def split: option.splits list.splits)
  have "\<exists>r. df_row f = Inr r"
    by (simp add: df_row_def s m w ws getitem0_def)
  then show ?thesis
    by (auto dest: df_row_Inr_slot)
qed

lemma df_Inr_iff: "df fs = Inr rows \<longleftrightarrow> list_all2 (\<lambda>f r. df_row f = Inr r) fs rows"
proof (induction fs arbitrary: rows)
  case Nil
  show ?case by auto
next
  case (Cons f fs)
  show ?case
    using Cons.IH by (auto simp: bind_Inr_iff list_all2_Cons1)
qed

lemma df_error: "df fs = Inl e \<Longrightarrow> e = IndexError \<or> (\<exists>k. e = KeyError k)"
proof (induction fs arbitrary: e)
  case Nil
  then show ?case by simp
next
  case (Cons f fs)
  then show ?case
    by (cases "df_row f"; cases "df fs") (auto dest: df_row_error)
qed

lemma df_aborts: "f \<in> set fs \<Longrightarrow> df_row f = Inl e \<Longrightarrow> \<exists>e'. df fs = Inl e'"
proof (induction fs)
  case Nil
  then show ?case by simp
next
  case (Cons g fs)
  then show ?case
    by (cases "df_row g"; cases "df fs") auto
qed

lemma app_Inr_iff:
  "app p d fl = Inr out \<longleftrightarrow>
     (\<exists>sel rows ls. selected_forecast d fl = Inr sel \<and> sel \<noteq> [] \<and> df sel = Inr rows
        \<and> condition_probabilities (risk_counts rows) (total_slots rows) = Inr ls
        \<and> out = \<lparr>run_df = rows, run_Condition = Condition rows,
                  run_risk_counts = risk_counts rows, run_total_slots = total_slots rows,
                  run_lines = ls, run_summary = summary p d rows\<rparr>)"
  by (auto simp: app_def bind_Inr_iff)

lemma app_Inr_fields:
  assumes "app p d fl = Inr out"
  shows "\<exists>sel rows. selected_forecast d fl = Inr sel \<and> sel \<noteq> [] \<and> df sel = Inr rows
    \<and> rows \<noteq> [] \<and> length rows = length sel
    \<and> run_df out = rows \<and> run_Condition out = Condition rows
    \<and> run_risk_counts out = value_counts (Condition rows)
    \<and> run_total_slots out = length rows
    \<and> condition_probabilities (value_counts (Condition rows)) (length rows)
        = Inr (run_lines out)
    \<and> run_summary out = summary p d rows"
proof -
  obtain sel rows ls where sel: "selected_forecast d fl = Inr sel" "sel \<noteq> []"
    and rows: "df sel = Inr rows"
    and ls: "condition_probabilities (risk_counts rows) (total_slots rows) = Inr ls"
    and out: "out = \<lparr>run_df = rows, run_Condition = Condition rows,
                  run_risk_counts = risk_counts rows, run_total_slots = total_slots rows,
                  run_lines = ls, run_summary = summary p d rows\<rparr>"
    using assms unfolding app_Inr_iff by blast
  have len: "length rows = length sel"
    using rows by (auto simp: df_Inr_iff dest: list_all2_lengthD)
  then have "rows \<noteq> []"
    using sel(2) by auto
  with sel rows ls len show ?thesis
    unfolding out by (simp add: risk_counts_def total_slots_def)
qed

lemma df_slots:
  "\<forall>f\<in>set fs. j_dt_txt f \<noteq> None \<and> has_required f
   \<Longrightarrow> \<exists>rows. df fs = Inr rows \<and> list_all2 is_slot_of rows fs"
proof (induction fs)
  case Nil
  show ?case by simp
next
  case (Cons f fs)
  obtain r where r: "df_row f = Inr r" "is_slot_of r f"
    using Cons.prems df_row_slot [of f] by auto
  obtain rows where rows: "df fs = Inr rows" "list_all2 is_slot_of rows fs"
    using Cons by auto
  show ?case
    using r rows by simp
qed

lemma unique_set [simp]: "set (unique xs) = set xs"
  by (induction xs rule: unique.induct) auto

lemma unique_distinct [simp]: "distinct (unique xs)"
  by (induction xs rule: unique.induct) auto

lemma distinct_in_order_unique:
  "distinct_in_order seen xs = unique (filter (\<lambda>x. x \<notin> set seen) xs)"
proof (induction xs arbitrary: seen)
  case Nil
  show ?case by simp
next
  case (Cons x xs)
  have "filter (\<lambda>y. y \<noteq> x) (filter (\<lambda>y. y \<notin> set seen) xs)
      = filter (\<lambda>y. y \<notin> set (x # seen)) xs"
    by (auto intro: filter_cong)
  then show ?case
    using Cons.IH by simp
qed

lemma unique_distinct_in_order: "unique xs = distinct_in_order [] xs"
  by (simp add: distinct_in_order_unique)

lemma sum_list_insort_key:
  "sum_list (map g (insort_key f x xs)) = g x + sum_list (map g xs)"
  for g :: "'a \<Rightarrow> 'b::comm_monoid_add"
  by (induction xs) (simp_all add: add.left_commute)

lemma sum_list_sort_key:
  "sum_list (map g (sort_key f xs)) = sum_list (map g xs)"
  for g :: "'a \<Rightarrow> 'b::comm_monoid_add"
  by (induction xs) (simp_all add: sum_list_insort_key)

lemma sum_count_unique: "sum_list (map (count_list xs) (unique xs)) = length xs"
proof -
  have "sum_list (map (count_list xs) (unique xs)) = sum (count_list xs) (set (unique xs))"
    by (simp add: sum_list_distinct_conv_sum_set)
  also have "\<dots> = length xs"
    by (simp add: sum_count_set)
  finally show ?thesis .
qed

lemma value_counts_keys: "set (map fst (value_counts xs)) = set xs"
  by (force simp: value_counts_def)

lemma value_counts_distinct: "distinct (map fst (value_counts xs))"
proof -
  define l where "l = map (\<lambda>v. (v, count_list xs v)) (unique xs)"
  have "map fst l = unique xs"
    by (simp add: l_def comp_def)
  then have "distinct (map fst l)"
    by simp
  then have "distinct l \<and> inj_on fst (set l)"
    by (simp add: distinct_map)
  then have "distinct (map fst (sort_key (\<lambda>(v, c). - int c) l))"
    by (simp add: distinct_map)
  then show ?thesis
    by (simp add: value_counts_def l_def)
qed

lemma value_counts_count:
  assumes "(c, n) \<in> set (value_counts xs)"
  shows "n = count_list xs c \<and> 0 < n"
proof -
  have "c \<in> set xs" and n: "n = count_list xs c"
    using assms by (auto simp: value_counts_def)
  then have "count_list xs c \<noteq> 0"
    by (simp add: count_list_0_iff)
  with n show ?thesis
    by simp
qed

lemma value_counts_sorted: "sorted_wrt (\<lambda>a b. snd b \<le> snd a) (value_counts xs)"
proof -
  have "sorted (map (\<lambda>(v, c). - int c) (value_counts xs))"
    unfolding value_counts_def by (rule sorted_sort_key)
  then show ?thesis
    by (simp add: sorted_map case_prod_beta)
qed

lemma value_counts_sum: "sum_list (map snd (value_counts xs)) = length xs"
  by (simp add: value_counts_def sum_list_sort_key comp_def sum_count_unique)

lemma value_counts_length: "length (value_counts xs) = card (set xs)"
  by (simp add: value_counts_def flip: distinct_card [OF unique_distinct])

lemma round_half_even_bound: "\<bar>of_int (round_half_even x) - x\<bar> \<le> 1 / 2"
proof -
  have "of_int \<lfloor>x\<rfloor> \<le> x" and "x < of_int \<lfloor>x\<rfloor> + 1"
    by linarith+
  then show ?thesis
    by (auto simp: round_half_even_def Let_def)
qed

lemma double_exponent_bounds:
  "0 < x \<Longrightarrow> 2 powi double_exponent x \<le> x \<and> x < 2 powi (double_exponent x + 1)"
proof (induction x rule: double_exponent.induct)
  case (1 x)
  show ?case
  proof (cases "2 \<le> x")
    case True
    then have e: "double_exponent x = double_exponent (x / 2) + 1"
      using "1.prems" by (subst double_exponent.simps) simp
    have "2 powi double_exponent (x / 2) \<le> x / 2
        \<and> x / 2 < 2 powi (double_exponent (x / 2) + 1)"
      using "1.IH"(1) "1.prems" True by simp
    then show ?thesis
      unfolding e by (simp add: power_int_add field_simps)
  next
    case False
    show ?thesis
    proof (cases "x < 1")
      case True
      then have e: "double_exponent x = double_exponent (x * 2) - 1"
        using "1.prems" False by (subst double_exponent.simps) simp
      have "2 powi double_exponent (x * 2) \<le> x * 2
          \<and> x * 2 < 2 powi (double_exponent (x * 2) + 1)"
        using "1.IH"(2) "1.prems" False True by simp
      then show ?thesis
        unfolding e by (simp add: power_int_add power_int_diff field_simps)
    next
      case False
      with \<open>\<not> 2 \<le> x\<close> have "double_exponent x = 0"
        using "1.prems" by (subst double_exponent.simps) simp
      with False \<open>\<not> 2 \<le> x\<close> show ?thesis
        by simp
    qed
  qed
qed

lemma double_exponent_le:
  assumes "0 < x" and "x < 2 powi (k + 1)"
  shows "double_exponent x \<le> k"
proof -
  have less: "(2::real) powi double_exponent x < 2 powi (k + 1)"
    using double_exponent_bounds [OF assms(1)] assms(2) by linarith
  show ?thesis
  proof (rule ccontr)
    assume "\<not> double_exponent x \<le> k"
    then have "k + 1 \<le> double_exponent x"
      by simp
    then have "(2::real) powi (k + 1) \<le> 2 powi double_exponent x"
      by (rule power_int_increasing) simp
    with less show False
      by simp
  qed
qed

lemma round_double_quantum:
  "\<bar>round_double x - x\<bar> \<le> 2 powi (max (double_exponent \<bar>x\<bar>) (- 1022) - 52) / 2"
proof -
  define q :: real where "q = 2 powi (max (double_exponent \<bar>x\<bar>) (- 1022) - 52)"
  define u :: real where "u = of_int (round_half_even (x / q))"
  have q: "0 < q"
    by (simp add: q_def)
  have near: "\<bar>u - x / q\<bar> \<le> 1 / 2"
    unfolding u_def by (rule round_half_even_bound)
  have "u * q - x = (u - x / q) * q"
    using q by (simp add: left_diff_distrib)
  then have "\<bar>u * q - x\<bar> = \<bar>u - x / q\<bar> * q"
    using q by (simp add: abs_mult)
  also have "\<dots> \<le> 1 / 2 * q"
    using near q by (intro mult_right_mono) simp_all
  finally have "\<bar>u * q - x\<bar> \<le> q / 2"
    by simp
  moreover have "round_double x = u * q"
    by (simp add: round_double_def Let_def q_def u_def)
  ultimately show ?thesis
    unfolding q_def by simp
qed

lemma round_double_error:
  assumes "\<bar>x\<bar> < 2 powi (k + 1)" and "- 1022 \<le> k"
  shows "\<bar>round_double x - x\<bar> \<le> 2 powi (k - 53)"
proof (cases "x = 0")
  case True
  then show ?thesis
    by (simp add: round_double_def round_half_even_def)
next
  case False
  then have "double_exponent \<bar>x\<bar> \<le> k"
    using assms(1) by (intro double_exponent_le) simp_all
  then have "max (double_exponent \<bar>x\<bar>) (- 1022) - 52 \<le> k - 52"
    using assms(2) by simp
  then have "(2::real) powi (max (double_exponent \<bar>x\<bar>) (- 1022) - 52) \<le> 2 powi (k - 52)"
    by (intro power_int_increasing) simp_all
  moreover have "(2::real) powi (k - 52) / 2 = 2 powi (k - 53)"
    by (simp add: power_int_diff)
  ultimately show ?thesis
    using round_double_quantum [of x] by linarith
qed

lemma probability_error:
  assumes "0 \<le> a" and "a \<le> 1"
  shows "\<bar>round_double (round_double a * 100) - 100 * a\<bar> \<le> 1 / 2 ^ 45"
proof -
  have one: "\<bar>round_double a - a\<bar> \<le> 2 powi (- 53)"
    using round_double_error [of a 0] assms by simp
  have small: "(2::real) powi (- 53) \<le> 1 / 100"
    by (simp add: power_int_minus field_simps)
  have "\<bar>round_double a\<bar> \<le> 1 + 1 / 100"
    using one small assms by linarith
  then have "\<bar>round_double a * 100\<bar> < 128"
    by (simp add: abs_mult)
  then have "\<bar>round_double a * 100\<bar> < 2 powi (6 + 1)"
    by simp
  then have two: "\<bar>round_double (round_double a * 100) - round_double a * 100\<bar> \<le> 2 powi (6 - 53)"
    by (rule round_double_error) simp
  have "round_double (round_double a * 100) - 100 * a
      = (round_double (round_double a * 100) - round_double a * 100)
        + 100 * (round_double a - a)"
    by simp
  also have "\<bar>\<dots>\<bar> \<le> \<bar>round_double (round_double a * 100) - round_double a * 100\<bar>
        + \<bar>100 * (round_double a - a)\<bar>"
    by (rule abs_triangle_ineq)
  also have "\<dots> = \<bar>round_double (round_double a * 100) - round_double a * 100\<bar>
        + 100 * \<bar>round_double a - a\<bar>"
    unfolding abs_mult by simp
  finally have "\<bar>round_double (round_double a * 100) - 100 * a\<bar>
      \<le> \<bar>round_double (round_double a * 100) - round_double a * 100\<bar>
        + 100 * \<bar>round_double a - a\<bar>" .
  also have "\<dots> \<le> 2 powi (6 - 53) + 100 * 2 powi (- 53)"
    by (intro add_mono mult_left_mono one two) simp
  also have "\<dots> \<le> 1 / 2 ^ 45"
    by (simp add: power_int_minus field_simps)
  finally show ?thesis .
qed

lemma format_1f_bound: "\<bar>format_1f p - p\<bar> \<le> 1 / 20"
proof -
  have "\<bar>of_int (round_half_even (p * 10)) - p * 10\<bar> \<le> 1 / 2"
    by (rule round_half_even_bound)
  then show ?thesis
    by (simp add: format_1f_def abs_le_iff field_simps)
qed

lemma sum_list_close:
  fixes f g :: "'a \<Rightarrow> real"
  assumes "\<forall>x\<in>set xs. \<bar>f x - g x\<bar> \<le> b"
  shows "\<bar>sum_list (map f xs) - sum_list (map g xs)\<bar> \<le> real (length xs) * b"
  using assms
proof (induction xs)
  case Nil
  show ?case by simp
next
  case (Cons x xs)
  have step: "\<bar>f x - g x\<bar> \<le> b"
    using Cons.prems by simp
  have rest: "\<bar>sum_list (map f xs) - sum_list (map g xs)\<bar> \<le> real (length xs) * b"
    using Cons by simp
  have "sum_list (map f (x # xs)) - sum_list (map g (x # xs))
      = (f x - g x) + (sum_list (map f xs) - sum_list (map g xs))"
    by simp
  also have "\<bar>\<dots>\<bar> \<le> \<bar>f x - g x\<bar> + \<bar>sum_list (map f xs) - sum_list (map g xs)\<bar>"
    by (rule abs_triangle_ineq)
  also have "\<dots> \<le> b + real (length xs) * b"
    using step rest by (rule add_mono)
  also have "\<dots> = real (length (x # xs)) * b"
    by (simp add: distrib_right)
  finally show ?case .
qed

lemma sum_format_1f_tenths:
  "sum_list (map format_1f ps)
     = of_int (sum_list (map (\<lambda>p. round_half_even (p * 10)) ps)) / 10"
  by (induction ps) (simp_all add: format_1f_def add_divide_distrib)

lemma condition_probabilities_lines:
  "0 < n \<Longrightarrow> condition_probabilities items n =
     Inr (map (\<lambda>(c, k). \<lparr>line_condition = c, line_count = k,
                line_probability = round_double (round_double (real k / real n) * 100),
                line_shown = format_1f (round_double (round_double (real k / real n) * 100))\<rparr>)
            items)"
  by (induction items n rule: condition_probabilities.induct) (simp_all add: probability_def)

lemma sum_probabilities:
  "sum_list (map (\<lambda>(c, k). real k / real n * 100) items)
     = real (sum_list (map snd items)) / real n * 100"
  by (induction items) (auto simp: add_divide_distrib distrib_right)

lemma Condition_in_RiskCategory: "set (Condition rows) \<subseteq> set RiskCategory"
  by (auto simp: Condition_def RiskCategory_def weather_risk_def)

lemma card_conditions: "card (set (Condition rows)) \<le> 6"
proof -
  have "card (set (Condition rows)) \<le> card (set RiskCategory)"
    by (rule card_mono) (simp_all add: Condition_in_RiskCategory)
  also have "\<dots> \<le> length RiskCategory"
    by (rule card_length)
  also have "\<dots> = 6"
    by (simp add: RiskCategory_def)
  finally show ?thesis .
qed

lemma append_if: "(if c then s @ a else s) = s @ (if c then a else [])"
  by simp

lemma summary_spec: "summary p d rows = spec_summary p d (Condition rows)"
  unfolding summary_def spec_summary_def base_sentence_def advisory_clauses_def Let_def
    append_if unique_distinct_in_order
  by (simp add: unique_distinct_in_order [symmetric])

text \<open>
  The doubles of the script at 23 slots of 80: the product is 28.749999999999996 and is
  printed as 28.7, where the exact value 28.75 would be a tie.
\<close>

lemma probability_23_of_80:
  "probability 23 80 = Inr (8092405580431359 / 281474976710656)
   \<and> format_1f (8092405580431359 / 281474976710656) = 287 / 10"
  by (simp add: probability_def round_double_def double_exponent.simps format_1f_def
      round_half_even_def Let_def)

lemma value_counts_le: "(c, k) \<in> set (value_counts xs) \<Longrightarrow> k \<le> length xs"
  by (auto simp: value_counts_def count_le_length)

section \<open>The classifier\<close>

text \<open>
  C1, as amended. The classifier is the specification's priority list read first match
  first, Comfortable when no rule matches; the slot with temperature 36, wind 15,
  precipitation 5 and humidity 90 is Very Hot; and every slot that satisfies both the wet
  and the uncomfortable conditions and whose wind speed is below 10 is Very Wet.
\<close>

theorem weather_risk_priority:
  "weather_risk t w r h = first_match priority_rules ''Comfortable'' t w r h
   \<and> weather_risk 36 15 5 90 = ''Very Hot''
   \<and> (w < 10 \<and> r > 2 \<and> h \<ge> 80 \<and> 20 \<le> t \<and> t \<le> 32
        \<longrightarrow> weather_risk t w r h = ''Very Wet'')"
  by (simp add: weather_risk_def priority_rules_def)

theorem weather_risk_priority_witness:
  "first_match priority_rules ''Comfortable'' 25 3 5 90 = ''Very Wet''
   \<and> (3::real) < 10 \<and> (5::real) > 2 \<and> (90::real) \<ge> 80 \<and> (20::real) \<le> 25 \<and> (25::real) \<le> 32
   \<and> weather_risk 25 3 5 90 = ''Very Wet''"
  using weather_risk_priority [of 25 3 5 90]
  by auto

text \<open>
  The claim as stated fails on a windy slot: temperature 25, precipitation 5 and humidity
  90 satisfy the wet and the uncomfortable conditions, and with wind 12 the slot is
  Very Windy.
\<close>

theorem weather_risk_wet_uncomfortable_counterexample:
  "(5::real) > 2 \<and> (90::real) \<ge> 80 \<and> (20::real) \<le> 25 \<and> (25::real) \<le> 32
   \<and> weather_risk 25 12 5 90 = ''Very Windy''
   \<and> weather_risk 25 12 5 90 \<noteq> ''Very Wet''"
  by (simp add: weather_risk_def)

text \<open>
  C5. The thresholds are inclusive or exclusive as specified: temperature exactly 35 is
  Very Hot and exactly 10 is Very Cold, whatever the other readings; temperature 10.1 with
  wind 9.9, no precipitation and humidity 50 is Comfortable; at temperature 25, when no
  other rule fires (wind below 10, precipitation at most 2), humidity 79 is Comfortable
  and humidity 80 is Very Uncomfortable.
\<close>

theorem weather_risk_boundaries:
  "weather_risk 35 w r h = ''Very Hot''
   \<and> weather_risk 10 w r h = ''Very Cold''
   \<and> weather_risk (101 / 10) (99 / 10) 0 50 = ''Comfortable''
   \<and> (w < 10 \<and> r \<le> 2 \<longrightarrow> weather_risk 25 w r 79 = ''Comfortable'')
   \<and> (w < 10 \<and> r \<le> 2 \<longrightarrow> weather_risk 25 w r 80 = ''Very Uncomfortable'')"
  by (simp add: weather_risk_def)

theorem weather_risk_boundaries_witness:
  "weather_risk 35 15 5 90 = ''Very Hot''
   \<and> weather_risk 10 15 5 90 = ''Very Cold''
   \<and> weather_risk (101 / 10) (99 / 10) 0 50 = ''Comfortable''
   \<and> (3::real) < 10 \<and> (1::real) \<le> 2
   \<and> weather_risk 25 3 1 79 = ''Comfortable''
   \<and> weather_risk 25 3 1 80 = ''Very Uncomfortable''"
  using weather_risk_boundaries [of 15 5 90] weather_risk_boundaries [of 3 1 0]
  by simp

text \<open>
  C6. The classifier is total and has no error path: for all readings it returns one of
  the six risk categories, which are pairwise different.
\<close>

theorem weather_risk_total:
  "weather_risk t w r h \<in> set RiskCategory \<and> distinct RiskCategory
   \<and> length RiskCategory = 6"
  by (simp add: weather_risk_def RiskCategory_def)

theorem weather_risk_total_witness:
  "weather_risk 25 3 0 50 \<in> set RiskCategory \<and> weather_risk 25 3 0 50 = ''Comfortable''"
  using weather_risk_total [of 25 3 0 50]
  by (simp add: weather_risk_def)

text \<open>
  C10. A slot with temperature strictly between 10 and 20, wind speed below 10 and
  precipitation at most 2 is Comfortable at every humidity, 80 to 100 percent included:
  the lower temperature bound of the humidity rule keeps cool, humid slots out of
  Very Uncomfortable.
\<close>

theorem weather_risk_cool_humid:
  assumes "10 < t" and "t < 20" and "w < 10" and "r \<le> 2"
  shows "weather_risk t w r h = ''Comfortable''"
  using assms by (simp add: weather_risk_def)

theorem weather_risk_cool_humid_witness:
  "(10::real) < 15 \<and> (15::real) < 20 \<and> (3::real) < 10 \<and> (0::real) \<le> 2
   \<and> weather_risk 15 3 0 100 = ''Comfortable''"
  using weather_risk_cool_humid [of 15 3 0 100]
  by simp

section \<open>The normalizer\<close>

text \<open>
  C8. When every record has its timestamp and the records on the target date have their
  required fields, the filter returns exactly the records whose timestamp's date
  component equals the target date, in the order of the input, and the data frame has
  one row per selected record, in the same order, each the forecast slot of its record
  with precipitation 0 where the record has none. A selection without records is the
  empty sequence and not an error of the filter or of the data frame.
\<close>

theorem normalizer_filters_in_order:
  assumes "length d = 10"
    and "\<forall>f\<in>set fl. j_dt_txt f \<noteq> None"
    and "\<forall>f\<in>set fl. on_date d f \<longrightarrow> has_required f"
  shows "selected_forecast d fl = Inr (filter (on_date d) fl)
    \<and> (\<exists>rows. df (filter (on_date d) fl) = Inr rows
          \<and> list_all2 is_slot_of rows (filter (on_date d) fl))
    \<and> (filter (on_date d) fl = [] \<longrightarrow> selected_forecast d fl = Inr [] \<and> df [] = Inr [])"
proof -
  have sel: "selected_forecast d fl = Inr (filter (on_date d) fl)"
    using assms(1,2) by (rule selected_forecast_on_date)
  have "\<forall>f\<in>set (filter (on_date d) fl). j_dt_txt f \<noteq> None \<and> has_required f"
    using assms(2,3) by simp
  then have "\<exists>rows. df (filter (on_date d) fl) = Inr rows
      \<and> list_all2 is_slot_of rows (filter (on_date d) fl)"
    by (rule df_slots)
  with sel show ?thesis
    by simp
qed

theorem normalizer_filters_in_order_witness:
  "length ''2025-06-01'' = 10
   \<and> selected_forecast ''2025-06-01''
      [\<lparr>j_dt_txt = Some ''2025-06-01 09:00:00'',
       j_main = Some \<lparr>j_temp = Some 36, j_humidity = Some 60\<rparr>,
       j_wind = Some \<lparr>j_speed = Some 3\<rparr>,
       j_weather = Some [\<lparr>j_description = Some ''clear sky''\<rparr>],
       j_rain = None\<rparr>,
       \<lparr>j_dt_txt = Some ''2025-06-02 12:00:00'',
       j_main = Some \<lparr>j_temp = Some 25, j_humidity = Some 60\<rparr>,
       j_wind = Some \<lparr>j_speed = Some 3\<rparr>,
       j_weather = Some [\<lparr>j_description = Some ''few clouds''\<rparr>],
       j_rain = None\<rparr>,
       \<lparr>j_dt_txt = Some ''2025-06-01 12:00:00'',
       j_main = Some \<lparr>j_temp = Some 25, j_humidity = Some 60\<rparr>,
       j_wind = Some \<lparr>j_speed = Some 3\<rparr>,
       j_weather = Some [\<lparr>j_description = Some ''light rain''\<rparr>],
       j_rain = Some \<lparr>j_3h = Some (1 / 2)\<rparr>\<rparr>]
     = Inr
      [\<lparr>j_dt_txt = Some ''2025-06-01 09:00:00'',
       j_main = Some \<lparr>j_temp = Some 36, j_humidity = Some 60\<rparr>,
       j_wind = Some \<lparr>j_speed = Some 3\<rparr>,
       j_weather = Some [\<lparr>j_description = Some ''clear sky''\<rparr>],
       j_rain = None\<rparr>,
       \<lparr>j_dt_txt = Some ''2025-06-01 12:00:00'',
       j_main = Some \<lparr>j_temp = Some 25, j_humidity = Some 60\<rparr>,
       j_wind = Some \<lparr>j_speed = Some 3\<rparr>,
       j_weather = Some [\<lparr>j_description = Some ''light rain''\<rparr>],
       j_rain = Some \<lparr>j_3h = Some (1 / 2)\<rparr>\<rparr>]
   \<and> df
      [\<lparr>j_dt_txt = Some ''2025-06-01 09:00:00'',
       j_main = Some \<lparr>j_temp = Some 36, j_humidity = Some 60\<rparr>,
       j_wind = Some \<lparr>j_speed = Some 3\<rparr>,
       j_weather = Some [\<lparr>j_description = Some ''clear sky''\<rparr>],
       j_rain = None\<rparr>,
       \<lparr>j_dt_txt = Some ''2025-06-01 12:00:00'',
       j_main = Some \<lparr>j_temp = Some 25, j_humidity = Some 60\<rparr>,
       j_wind = Some \<lparr>j_speed = Some 3\<rparr>,
       j_weather = Some [\<lparr>j_description = Some ''light rain''\<rparr>],
       j_rain = Some \<lparr>j_3h = Some (1 / 2)\<rparr>\<rparr>]
     = Inr
      [\<lparr>time = ''2025-06-01 09:00:00'', temperature = 36, humidity = 60,
          wind_speed = 3, weather = ''clear sky'', rain = 0\<rparr>,
       \<lparr>time = ''2025-06-01 12:00:00'', temperature = 25, humidity = 60,
          wind_speed = 3, weather = ''light rain'', rain = 1 / 2\<rparr>]"
  using normalizer_filters_in_order [of "''2025-06-01''"
      "[\<lparr>j_dt_txt = Some ''2025-06-01 09:00:00'',
       j_main = Some \<lparr>j_temp = Some 36, j_humidity = Some 60\<rparr>,
       j_wind = Some \<lparr>j_speed = Some 3\<rparr>,
       j_weather = Some [\<lparr>j_description = Some ''clear sky''\<rparr>],
       j_rain = None\<rparr>,
       \<lparr>j_dt_txt = Some ''2025-06-02 12:00:00'',
       j_main = Some \<lparr>j_temp = Some 25, j_humidity = Some 60\<rparr>,
       j_wind = Some \<lparr>j_speed = Some 3\<rparr>,
       j_weather = Some [\<lparr>j_description = Some ''few clouds''\<rparr>],
       j_rain = None\<rparr>,
       \<lparr>j_dt_txt = Some ''2025-06-01 12:00:00'',
       j_main = Some \<lparr>j_temp = Some 25, j_humidity = Some 60\<rparr>,
       j_wind = Some \<lparr>j_speed = Some 3\<rparr>,
       j_weather = Some [\<lparr>j_description = Some ''light rain''\<rparr>],
       j_rain = Some \<lparr>j_3h = Some (1 / 2)\<rparr>\<rparr>]"]
  by (simp add: on_date_def has_required_def df_row_def getitem0_def dict_get_def)

text \<open>
  C2, as amended. A record selected for the target date that lacks a required field
  (temperature, humidity, wind speed or description) raises a \<open>KeyError\<close> (an
  \<open>IndexError\<close> when its weather list is empty) when its row is built, and the exception
  ends the construction of the whole data frame and the run: no normalized sequence and
  no counts are produced, no record is left out and no number of left-out records is
  reported.
\<close>

theorem missing_field_aborts:
  assumes "selected_forecast d fl = Inr sel" and "f \<in> set sel" and "\<not> has_required f"
  shows "(\<exists>e. df_row f = Inl e \<and> (e = IndexError \<or> (\<exists>k. e = KeyError k)))
    \<and> (\<exists>e. df sel = Inl e \<and> (e = IndexError \<or> (\<exists>k. e = KeyError k)))
    \<and> (\<exists>e. app p d fl = Inl e \<and> e \<noteq> NoForecastData)"
proof -
  obtain e where e: "df_row f = Inl e"
    using assms(3) df_row_missing by blast
  obtain e' where e': "df sel = Inl e'"
    using assms(2) e df_aborts by blast
  have k: "e' = IndexError \<or> (\<exists>k. e' = KeyError k)"
    using e' by (rule df_error)
  have "sel \<noteq> []"
    using assms(2) by auto
  then have "app p d fl = Inl e'"
    by (simp add: app_def assms(1) e')
  with e e' k df_row_error [OF e] show ?thesis
    by auto
qed

theorem missing_field_aborts_witness:
  "selected_forecast ''2025-06-01''
      [\<lparr>j_dt_txt = Some ''2025-06-01 09:00:00'',
       j_main = Some \<lparr>j_temp = None, j_humidity = Some 60\<rparr>,
       j_wind = Some \<lparr>j_speed = Some 3\<rparr>,
       j_weather = Some [\<lparr>j_description = Some ''clear sky''\<rparr>],
       j_rain = None\<rparr>]
     = Inr
      [\<lparr>j_dt_txt = Some ''2025-06-01 09:00:00'',
       j_main = Some \<lparr>j_temp = None, j_humidity = Some 60\<rparr>,
       j_wind = Some \<lparr>j_speed = Some 3\<rparr>,
       j_weather = Some [\<lparr>j_description = Some ''clear sky''\<rparr>],
       j_rain = None\<rparr>]
   \<and> \<not> has_required
      \<lparr>j_dt_txt = Some ''2025-06-01 09:00:00'',
       j_main = Some \<lparr>j_temp = None, j_humidity = Some 60\<rparr>,
       j_wind = Some \<lparr>j_speed = Some 3\<rparr>,
       j_weather = Some [\<lparr>j_description = Some ''clear sky''\<rparr>],
       j_rain = None\<rparr>
   \<and> (\<exists>e. app ''Mumbai'' ''2025-06-01''
      [\<lparr>j_dt_txt = Some ''2025-06-01 09:00:00'',
       j_main = Some \<lparr>j_temp = None, j_humidity = Some 60\<rparr>,
       j_wind = Some \<lparr>j_speed = Some 3\<rparr>,
       j_weather = Some [\<lparr>j_description = Some ''clear sky''\<rparr>],
       j_rain = None\<rparr>] = Inl e \<and> e \<noteq> NoForecastData)"
  using missing_field_aborts [of "''2025-06-01''"
      "[\<lparr>j_dt_txt = Some ''2025-06-01 09:00:00'',
       j_main = Some \<lparr>j_temp = None, j_humidity = Some 60\<rparr>,
       j_wind = Some \<lparr>j_speed = Some 3\<rparr>,
       j_weather = Some [\<lparr>j_description = Some ''clear sky''\<rparr>],
       j_rain = None\<rparr>]"
      "[\<lparr>j_dt_txt = Some ''2025-06-01 09:00:00'',
       j_main = Some \<lparr>j_temp = None, j_humidity = Some 60\<rparr>,
       j_wind = Some \<lparr>j_speed = Some 3\<rparr>,
       j_weather = Some [\<lparr>j_description = Some ''clear sky''\<rparr>],
       j_rain = None\<rparr>]"
      "\<lparr>j_dt_txt = Some ''2025-06-01 09:00:00'',
       j_main = Some \<lparr>j_temp = None, j_humidity = Some 60\<rparr>,
       j_wind = Some \<lparr>j_speed = Some 3\<rparr>,
       j_weather = Some [\<lparr>j_description = Some ''clear sky''\<rparr>],
       j_rain = None\<rparr>" "''Mumbai''"]
  by (simp add: has_required_def)

text \<open>
  The claim as stated fails on a batch of a record without \<open>main.temp\<close> and a complete
  record: the run and the data frame end with \<open>KeyError\<close>, where the claim has the
  complete record normalized; alone, the complete record is normalized.
\<close>

theorem malformed_record_counterexample:
  "app ''Mumbai'' ''2025-06-01''
      [\<lparr>j_dt_txt = Some ''2025-06-01 09:00:00'',
       j_main = Some \<lparr>j_temp = None, j_humidity = Some 60\<rparr>,
       j_wind = Some \<lparr>j_speed = Some 3\<rparr>,
       j_weather = Some [\<lparr>j_description = Some ''clear sky''\<rparr>],
       j_rain = None\<rparr>,
       \<lparr>j_dt_txt = Some ''2025-06-01 12:00:00'',
       j_main = Some \<lparr>j_temp = Some 25, j_humidity = Some 60\<rparr>,
       j_wind = Some \<lparr>j_speed = Some 3\<rparr>,
       j_weather = Some [\<lparr>j_description = Some ''light rain''\<rparr>],
       j_rain = Some \<lparr>j_3h = Some (1 / 2)\<rparr>\<rparr>]
     = Inl (KeyError ''temp'')
   \<and> df
      [\<lparr>j_dt_txt = Some ''2025-06-01 09:00:00'',
       j_main = Some \<lparr>j_temp = None, j_humidity = Some 60\<rparr>,
       j_wind = Some \<lparr>j_speed = Some 3\<rparr>,
       j_weather = Some [\<lparr>j_description = Some ''clear sky''\<rparr>],
       j_rain = None\<rparr>,
       \<lparr>j_dt_txt = Some ''2025-06-01 12:00:00'',
       j_main = Some \<lparr>j_temp = Some 25, j_humidity = Some 60\<rparr>,
       j_wind = Some \<lparr>j_speed = Some 3\<rparr>,
       j_weather = Some [\<lparr>j_description = Some ''light rain''\<rparr>],
       j_rain = Some \<lparr>j_3h = Some (1 / 2)\<rparr>\<rparr>]
     = Inl (KeyError ''temp'')
   \<and> df
      [\<lparr>j_dt_txt = Some ''2025-06-01 12:00:00'',
       j_main = Some \<lparr>j_temp = Some 25, j_humidity = Some 60\<rparr>,
       j_wind = Some \<lparr>j_speed = Some 3\<rparr>,
       j_weather = Some [\<lparr>j_description = Some ''light rain''\<rparr>],
       j_rain = Some \<lparr>j_3h = Some (1 / 2)\<rparr>\<rparr>]
     = Inr
      [\<lparr>time = ''2025-06-01 12:00:00'', temperature = 25, humidity = 60,
          wind_speed = 3, weather = ''light rain'', rain = 1 / 2\<rparr>]"
  by (simp add: app_def df_row_def getitem0_def dict_get_def)

section \<open>Runs without data\<close>

text \<open>
  C7, as amended. When no record is selected for the date, the run ends with the no-data
  stop before the data frame, the conditions and the counts are computed, and returns no
  assessment; every run that returns an assessment has at least one slot. The
  computation of the counts and probabilities has no check of its own: on every slot
  sequence, the empty one included, it returns its lines and signals no error.
\<close>

theorem empty_selection_stops:
  "(selected_forecast d fl = Inr [] \<longrightarrow> app p d fl = Inl NoForecastData)
   \<and> (\<forall>out. app p d fl = Inr out \<longrightarrow>
         0 < run_total_slots out \<and> run_df out \<noteq> []
         \<and> run_total_slots out = length (run_df out))
   \<and> (\<exists>ls. condition_probabilities (risk_counts rows) (total_slots rows) = Inr ls)"
proof -
  have "0 < run_total_slots out \<and> run_df out \<noteq> []
      \<and> run_total_slots out = length (run_df out)"
    if run: "app p d fl = Inr out" for out
  proof -
    obtain rows where "rows \<noteq> []" and "run_df out = rows"
      and "run_total_slots out = length rows"
      using app_Inr_fields [OF run] by blast
    then show ?thesis
      by simp
  qed
  moreover have "\<exists>ls. condition_probabilities (risk_counts rows) (total_slots rows) = Inr ls"
  proof (cases rows)
    case Nil
    then show ?thesis
      by (simp add: risk_counts_def Condition_def value_counts_def)
  next
    case (Cons r rs)
    then have "0 < total_slots rows"
      by (simp add: total_slots_def)
    then show ?thesis
      by (simp add: condition_probabilities_lines)
  qed
  ultimately show ?thesis
    by (simp add: app_def)
qed

theorem empty_selection_stops_witness:
  "selected_forecast ''2025-06-01''
      [\<lparr>j_dt_txt = Some ''2025-06-02 12:00:00'',
       j_main = Some \<lparr>j_temp = Some 25, j_humidity = Some 60\<rparr>,
       j_wind = Some \<lparr>j_speed = Some 3\<rparr>,
       j_weather = Some [\<lparr>j_description = Some ''few clouds''\<rparr>],
       j_rain = None\<rparr>]
     = Inr []
   \<and> app ''Mumbai'' ''2025-06-01''
      [\<lparr>j_dt_txt = Some ''2025-06-02 12:00:00'',
       j_main = Some \<lparr>j_temp = Some 25, j_humidity = Some 60\<rparr>,
       j_wind = Some \<lparr>j_speed = Some 3\<rparr>,
       j_weather = Some [\<lparr>j_description = Some ''few clouds''\<rparr>],
       j_rain = None\<rparr>]
     = Inl NoForecastData
   \<and> (\<exists>out. app ''Mumbai'' ''2025-06-01''
      [\<lparr>j_dt_txt = Some ''2025-06-01 12:00:00'',
       j_main = Some \<lparr>j_temp = Some 25, j_humidity = Some 60\<rparr>,
       j_wind = Some \<lparr>j_speed = Some 3\<rparr>,
       j_weather = Some [\<lparr>j_description = Some ''light rain''\<rparr>],
       j_rain = Some \<lparr>j_3h = Some (1 / 2)\<rparr>\<rparr>]
       = Inr out \<and> 0 < run_total_slots out \<and> run_total_slots out = 1)
   \<and> (\<exists>ls. condition_probabilities (risk_counts []) (total_slots []) = Inr ls)"
proof -
  have "\<exists>out. app ''Mumbai'' ''2025-06-01''
      [\<lparr>j_dt_txt = Some ''2025-06-01 12:00:00'',
       j_main = Some \<lparr>j_temp = Some 25, j_humidity = Some 60\<rparr>,
       j_wind = Some \<lparr>j_speed = Some 3\<rparr>,
       j_weather = Some [\<lparr>j_description = Some ''light rain''\<rparr>],
       j_rain = Some \<lparr>j_3h = Some (1 / 2)\<rparr>\<rparr>]
       = Inr out \<and> run_total_slots out = 1"
    by (simp add: app_def df_row_def getitem0_def dict_get_def total_slots_def
        risk_counts_def Condition_def weather_risk_def value_counts_def sort_key_def
        probability_def)
  then show ?thesis
    using empty_selection_stops [of "''2025-06-01''"
      "[\<lparr>j_dt_txt = Some ''2025-06-02 12:00:00'',
       j_main = Some \<lparr>j_temp = Some 25, j_humidity = Some 60\<rparr>,
       j_wind = Some \<lparr>j_speed = Some 3\<rparr>,
       j_weather = Some [\<lparr>j_description = Some ''few clouds''\<rparr>],
       j_rain = None\<rparr>]" "''Mumbai''" "[]"]
    by auto
qed

text \<open>
  The claim as stated fails on the empty slot sequence: the counts are the empty mapping,
  the total is 0, and the loop over the counts returns no line and no error.
\<close>

theorem empty_aggregation_counterexample:
  "risk_counts [] = [] \<and> total_slots [] = 0
   \<and> condition_probabilities (risk_counts []) (total_slots []) = Inr []
   \<and> condition_probabilities (risk_counts []) (total_slots []) \<noteq> Inl NoForecastData"
  by (simp add: risk_counts_def Condition_def value_counts_def total_slots_def)

section \<open>The risk assessment\<close>

text \<open>
  C3, as amended. In every run that returns an assessment, the mapping of counts holds
  exactly the categories that occur at least once, each once and with the number of its
  occurrences (a category that does not occur has no entry), and it is ordered by
  descending count, the most frequent category first.
\<close>

theorem risk_counts_by_frequency:
  assumes "app p d fl = Inr out"
  shows "set (map fst (run_risk_counts out)) = set (run_Condition out)
    \<and> distinct (map fst (run_risk_counts out))
    \<and> (\<forall>(c, n)\<in>set (run_risk_counts out). n = count_list (run_Condition out) c \<and> 0 < n)
    \<and> sorted_wrt (\<lambda>a b. snd b \<le> snd a) (run_risk_counts out)"
proof -
  obtain rows where c: "run_Condition out = Condition rows"
    and rc: "run_risk_counts out = value_counts (Condition rows)"
    using app_Inr_fields [OF assms] by blast
  have "\<forall>(c, n)\<in>set (value_counts (Condition rows)).
      n = count_list (Condition rows) c \<and> 0 < n"
    using value_counts_count [of _ _ "Condition rows"] by blast
  then show ?thesis
    unfolding c rc
    using value_counts_keys [of "Condition rows"] value_counts_distinct [of "Condition rows"]
      value_counts_sorted [of "Condition rows"]
    by simp
qed

theorem risk_counts_by_frequency_witness:
  "\<exists>out. app ''Mumbai'' ''2025-06-01''
      [\<lparr>j_dt_txt = Some ''2025-06-01 09:00:00'',
        j_main = Some \<lparr>j_temp = Some 25, j_humidity = Some 60\<rparr>,
        j_wind = Some \<lparr>j_speed = Some 3\<rparr>,
        j_weather = Some [\<lparr>j_description = Some ''few clouds''\<rparr>],
        j_rain = None\<rparr>,
       \<lparr>j_dt_txt = Some ''2025-06-01 12:00:00'',
        j_main = Some \<lparr>j_temp = Some 36, j_humidity = Some 40\<rparr>,
        j_wind = Some \<lparr>j_speed = Some 3\<rparr>,
        j_weather = Some [\<lparr>j_description = Some ''clear sky''\<rparr>],
        j_rain = None\<rparr>,
       \<lparr>j_dt_txt = Some ''2025-06-01 15:00:00'',
        j_main = Some \<lparr>j_temp = Some 36, j_humidity = Some 40\<rparr>,
        j_wind = Some \<lparr>j_speed = Some 3\<rparr>,
        j_weather = Some [\<lparr>j_description = Some ''clear sky''\<rparr>],
        j_rain = None\<rparr>] = Inr out
     \<and> run_risk_counts out = [(''Very Hot'', 2), (''Comfortable'', 1)]
     \<and> run_Condition out = [''Comfortable'', ''Very Hot'', ''Very Hot'']
     \<and> set (map fst (run_risk_counts out)) = set (run_Condition out)
     \<and> sorted_wrt (\<lambda>a b. snd b \<le> snd a) (run_risk_counts out)"
proof -
  have "\<exists>out. app ''Mumbai'' ''2025-06-01''
      [\<lparr>j_dt_txt = Some ''2025-06-01 09:00:00'',
        j_main = Some \<lparr>j_temp = Some 25, j_humidity = Some 60\<rparr>,
        j_wind = Some \<lparr>j_speed = Some 3\<rparr>,
        j_weather = Some [\<lparr>j_description = Some ''few clouds''\<rparr>],
        j_rain = None\<rparr>,
       \<lparr>j_dt_txt = Some ''2025-06-01 12:00:00'',
        j_main = Some \<lparr>j_temp = Some 36, j_humidity = Some 40\<rparr>,
        j_wind = Some \<lparr>j_speed = Some 3\<rparr>,
        j_weather = Some [\<lparr>j_description = Some ''clear sky''\<rparr>],
        j_rain = None\<rparr>,
       \<lparr>j_dt_txt = Some ''2025-06-01 15:00:00'',
        j_main = Some \<lparr>j_temp = Some 36, j_humidity = Some 40\<rparr>,
        j_wind = Some \<lparr>j_speed = Some 3\<rparr>,
        j_weather = Some [\<lparr>j_description = Some ''clear sky''\<rparr>],
        j_rain = None\<rparr>] = Inr out
     \<and> run_risk_counts out = [(''Very Hot'', 2), (''Comfortable'', 1)]
     \<and> run_Condition out = [''Comfortable'', ''Very Hot'', ''Very Hot'']"
    by (simp add: app_def df_row_def getitem0_def dict_get_def total_slots_def
        risk_counts_def Condition_def weather_risk_def value_counts_def sort_key_def
        probability_def)
  then obtain out where h: "app ''Mumbai'' ''2025-06-01''
      [\<lparr>j_dt_txt = Some ''2025-06-01 09:00:00'',
        j_main = Some \<lparr>j_temp = Some 25, j_humidity = Some 60\<rparr>,
        j_wind = Some \<lparr>j_speed = Some 3\<rparr>,
        j_weather = Some [\<lparr>j_description = Some ''few clouds''\<rparr>],
        j_rain = None\<rparr>,
       \<lparr>j_dt_txt = Some ''2025-06-01 12:00:00'',
        j_main = Some \<lparr>j_temp = Some 36, j_humidity = Some 40\<rparr>,
        j_wind = Some \<lparr>j_speed = Some 3\<rparr>,
        j_weather = Some [\<lparr>j_description = Some ''clear sky''\<rparr>],
        j_rain = None\<rparr>,
       \<lparr>j_dt_txt = Some ''2025-06-01 15:00:00'',
        j_main = Some \<lparr>j_temp = Some 36, j_humidity = Some 40\<rparr>,
        j_wind = Some \<lparr>j_speed = Some 3\<rparr>,
        j_weather = Some [\<lparr>j_description = Some ''clear sky''\<rparr>],
        j_rain = None\<rparr>] = Inr out
     \<and> run_risk_counts out = [(''Very Hot'', 2), (''Comfortable'', 1)]
     \<and> run_Condition out = [''Comfortable'', ''Very Hot'', ''Very Hot'']" ..
  note run = h [THEN conjunct1]
  note props = risk_counts_by_frequency [OF run]
  show ?thesis
    by (rule exI [of _ out]) (intro conjI h [THEN conjunct1] h [THEN conjunct2, THEN conjunct1]
        h [THEN conjunct2, THEN conjunct2] props [THEN conjunct1]
        props [THEN conjunct2, THEN conjunct2, THEN conjunct2])
qed

text \<open>
  The claim as stated fails on a run of three slots, Comfortable, Very Hot, Very Hot: the
  order of first occurrence is Comfortable, Very Hot, and the mapping of counts has
  Very Hot, counted twice, before Comfortable.
\<close>

theorem risk_counts_order_counterexample:
  "\<exists>out. app ''Mumbai'' ''2025-06-01''
      [\<lparr>j_dt_txt = Some ''2025-06-01 09:00:00'',
        j_main = Some \<lparr>j_temp = Some 25, j_humidity = Some 60\<rparr>,
        j_wind = Some \<lparr>j_speed = Some 3\<rparr>,
        j_weather = Some [\<lparr>j_description = Some ''few clouds''\<rparr>],
        j_rain = None\<rparr>,
       \<lparr>j_dt_txt = Some ''2025-06-01 12:00:00'',
        j_main = Some \<lparr>j_temp = Some 36, j_humidity = Some 40\<rparr>,
        j_wind = Some \<lparr>j_speed = Some 3\<rparr>,
        j_weather = Some [\<lparr>j_description = Some ''clear sky''\<rparr>],
        j_rain = None\<rparr>,
       \<lparr>j_dt_txt = Some ''2025-06-01 15:00:00'',
        j_main = Some \<lparr>j_temp = Some 36, j_humidity = Some 40\<rparr>,
        j_wind = Some \<lparr>j_speed = Some 3\<rparr>,
        j_weather = Some [\<lparr>j_description = Some ''clear sky''\<rparr>],
        j_rain = None\<rparr>] = Inr out
     \<and> map fst (run_risk_counts out) = [''Very Hot'', ''Comfortable'']
     \<and> distinct_in_order [] (run_Condition out) = [''Comfortable'', ''Very Hot'']
     \<and> map fst (run_risk_counts out) \<noteq> distinct_in_order [] (run_Condition out)"
  by (simp add: app_def df_row_def getitem0_def dict_get_def total_slots_def
        risk_counts_def Condition_def weather_risk_def value_counts_def sort_key_def
        probability_def)

text \<open>
  C4, as amended. In every run that returns an assessment, the counts sum to the total
  number of slots; each category's probability is the double computed as
  \<open>(count / total_slots) * 100\<close>, which differs from 100 times the count over the total by
  at most \<open>2 ^ -45\<close>; and the sum of the probabilities as printed with one decimal place
  differs from 100 by at most 0.05 (plus \<open>2 ^ -45\<close>) times the number of categories
  returned, of which there are at most six: by at most 0.3.
\<close>

theorem probabilities_sum:
  assumes "app p d fl = Inr out"
  shows "sum_list (map snd (run_risk_counts out)) = run_total_slots out
    \<and> map line_condition (run_lines out) = map fst (run_risk_counts out)
    \<and> map line_count (run_lines out) = map snd (run_risk_counts out)
    \<and> (\<forall>l\<in>set (run_lines out).
          line_probability l
            = round_double (round_double (real (line_count l) / real (run_total_slots out)) * 100)
          \<and> \<bar>line_probability l - 100 * real (line_count l) / real (run_total_slots out)\<bar>
              \<le> 1 / 2 ^ 45
          \<and> line_shown l = format_1f (line_probability l))
    \<and> \<bar>sum_list (map line_shown (run_lines out)) - 100\<bar>
         \<le> real (length (run_lines out)) * (1 / 20 + 1 / 2 ^ 45)
    \<and> length (run_lines out) \<le> 6
    \<and> \<bar>sum_list (map line_shown (run_lines out)) - 100\<bar> \<le> 3 / 10"
proof -
  obtain rows where rows: "rows \<noteq> []"
    and rc: "run_risk_counts out = value_counts (Condition rows)"
    and n: "run_total_slots out = length rows"
    and ls: "condition_probabilities (value_counts (Condition rows)) (length rows)
        = Inr (run_lines out)"
    using app_Inr_fields [OF assms] by blast
  define items where "items = value_counts (Condition rows)"
  define m where "m = length rows"
  define prob where "prob = (\<lambda>k. round_double (round_double (real k / real m) * 100))"
  have m: "0 < m"
    using rows by (simp add: m_def)
  have lines: "run_lines out =
      map (\<lambda>(c, k). \<lparr>line_condition = c, line_count = k, line_probability = prob k,
                line_shown = format_1f (prob k)\<rparr>) items"
    using ls condition_probabilities_lines [OF m, of items]
    by (simp add: items_def m_def prob_def)
  have total: "sum_list (map snd items) = m"
    by (simp add: items_def m_def value_counts_sum Condition_def)
  have c1: "map line_condition (run_lines out) = map fst items"
    and c2: "map line_count (run_lines out) = map snd items"
    by (simp_all add: lines comp_def case_prod_beta)
  have near: "\<bar>prob k - 100 * real k / real m\<bar> \<le> 1 / 2 ^ 45" if "(c, k) \<in> set items" for c k
  proof -
    have "k \<le> m"
      using that value_counts_le [of c k "Condition rows"] by (simp add: items_def m_def Condition_def)
    then have "0 \<le> real k / real m" and "real k / real m \<le> 1"
      using m by simp_all
    then have "\<bar>prob k - 100 * (real k / real m)\<bar> \<le> 1 / 2 ^ 45"
      unfolding prob_def by (rule probability_error)
    then show ?thesis
      by simp
  qed
  have c3: "\<forall>l\<in>set (run_lines out).
      line_probability l = round_double (round_double (real (line_count l) / real m) * 100)
      \<and> \<bar>line_probability l - 100 * real (line_count l) / real m\<bar> \<le> 1 / 2 ^ 45
      \<and> line_shown l = format_1f (line_probability l)"
    using near by (auto simp: lines prob_def)
  have close: "\<forall>x\<in>set items.
      \<bar>(\<lambda>(c, k). format_1f (prob k)) x - (\<lambda>(c, k). real k / real m * 100) x\<bar>
        \<le> 1 / 20 + 1 / 2 ^ 45"
  proof
    fix x
    assume x: "x \<in> set items"
    obtain c k where ck: "x = (c, k)"
      by (cases x)
    have "format_1f (prob k) - real k / real m * 100
        = (format_1f (prob k) - prob k) + (prob k - 100 * real k / real m)"
      by simp
    also have "\<bar>\<dots>\<bar> \<le> \<bar>format_1f (prob k) - prob k\<bar> + \<bar>prob k - 100 * real k / real m\<bar>"
      by (rule abs_triangle_ineq)
    also have "\<dots> \<le> 1 / 20 + 1 / 2 ^ 45"
      using x ck by (intro add_mono format_1f_bound near) simp
    finally show "\<bar>(\<lambda>(c, k). format_1f (prob k)) x - (\<lambda>(c, k). real k / real m * 100) x\<bar>
        \<le> 1 / 20 + 1 / 2 ^ 45"
      by (simp add: ck)
  qed
  have shown: "map line_shown (run_lines out) = map (\<lambda>(c, k). format_1f (prob k)) items"
    by (simp add: lines comp_def case_prod_beta)
  have exact: "sum_list (map (\<lambda>(c, k). real k / real m * 100) items) = 100"
    unfolding sum_probabilities total using m by simp
  have len: "length (run_lines out) = length items"
    by (simp add: lines)
  have c4: "\<bar>sum_list (map line_shown (run_lines out)) - 100\<bar>
      \<le> real (length (run_lines out)) * (1 / 20 + 1 / 2 ^ 45)"
    using sum_list_close [OF close] unfolding shown exact len .
  have "length (run_lines out) = card (set (Condition rows))"
    by (simp add: lines items_def value_counts_length)
  then have c5: "length (run_lines out) \<le> 6"
    by (simp add: card_conditions)
  define N where "N = sum_list (map (\<lambda>p. round_half_even (p * 10)) (map prob (map snd items)))"
  have "map line_shown (run_lines out) = map format_1f (map prob (map snd items))"
    by (simp add: lines comp_def case_prod_beta)
  then have tenths: "sum_list (map line_shown (run_lines out)) = of_int N / 10"
    unfolding N_def by (simp only: sum_format_1f_tenths)
  have "real (length (run_lines out)) * (1 / 20 + 1 / 2 ^ 45) \<le> 6 * (1 / 20 + 1 / 2 ^ 45)"
    using c5 by (intro mult_right_mono) simp_all
  also have "\<dots> < 4 / 10"
    by simp
  finally have "\<bar>real_of_int N / 10 - 100\<bar> < 4 / 10"
    using c4 unfolding tenths by linarith
  then have "real_of_int N / 10 - 100 < 4 / 10 \<and> - (real_of_int N / 10 - 100) < 4 / 10"
    unfolding abs_less_iff .
  then have "real_of_int N < 1004" and "996 < real_of_int N"
    by linarith+
  then have "N \<le> 1003" and "997 \<le> N"
    by simp_all
  then have "real_of_int N \<le> 1003" and "997 \<le> real_of_int N"
    by simp_all
  then have "real_of_int N / 10 - 100 \<le> 3 / 10 \<and> - (real_of_int N / 10 - 100) \<le> 3 / 10"
    by linarith
  then have c6: "\<bar>sum_list (map line_shown (run_lines out)) - 100\<bar> \<le> 3 / 10"
    unfolding tenths abs_le_iff .
  show ?thesis
    unfolding rc n
    using total c1 c2 c3 c4 c5 c6 unfolding items_def m_def
    by (intro conjI)
qed

theorem probabilities_sum_witness:
  "\<exists>out. app ''Mumbai'' ''2025-06-01''
      [\<lparr>j_dt_txt = Some ''2025-06-01 09:00:00'',
        j_main = Some \<lparr>j_temp = Some 25, j_humidity = Some 60\<rparr>,
        j_wind = Some \<lparr>j_speed = Some 3\<rparr>,
        j_weather = Some [\<lparr>j_description = Some ''few clouds''\<rparr>],
        j_rain = None\<rparr>,
       \<lparr>j_dt_txt = Some ''2025-06-01 12:00:00'',
        j_main = Some \<lparr>j_temp = Some 36, j_humidity = Some 40\<rparr>,
        j_wind = Some \<lparr>j_speed = Some 3\<rparr>,
        j_weather = Some [\<lparr>j_description = Some ''clear sky''\<rparr>],
        j_rain = None\<rparr>,
       \<lparr>j_dt_txt = Some ''2025-06-01 15:00:00'',
        j_main = Some \<lparr>j_temp = Some 36, j_humidity = Some 40\<rparr>,
        j_wind = Some \<lparr>j_speed = Some 3\<rparr>,
        j_weather = Some [\<lparr>j_description = Some ''clear sky''\<rparr>],
        j_rain = None\<rparr>] = Inr out
     \<and> run_total_slots out = 3
     \<and> map line_count (run_lines out) = [2, 1]
     \<and> map line_probability (run_lines out)
         = [2345624805922133 / 35184372088832, 2345624805922133 / 70368744177664]
     \<and> map line_shown (run_lines out) = [667 / 10, 333 / 10]
     \<and> sum_list (map snd (run_risk_counts out)) = run_total_slots out
     \<and> \<bar>sum_list (map line_shown (run_lines out)) - 100\<bar> \<le> 3 / 10"
proof -
  have "\<exists>out. app ''Mumbai'' ''2025-06-01''
      [\<lparr>j_dt_txt = Some ''2025-06-01 09:00:00'',
        j_main = Some \<lparr>j_temp = Some 25, j_humidity = Some 60\<rparr>,
        j_wind = Some \<lparr>j_speed = Some 3\<rparr>,
        j_weather = Some [\<lparr>j_description = Some ''few clouds''\<rparr>],
        j_rain = None\<rparr>,
       \<lparr>j_dt_txt = Some ''2025-06-01 12:00:00'',
        j_main = Some \<lparr>j_temp = Some 36, j_humidity = Some 40\<rparr>,
        j_wind = Some \<lparr>j_speed = Some 3\<rparr>,
        j_weather = Some [\<lparr>j_description = Some ''clear sky''\<rparr>],
        j_rain = None\<rparr>,
       \<lparr>j_dt_txt = Some ''2025-06-01 15:00:00'',
        j_main = Some \<lparr>j_temp = Some 36, j_humidity = Some 40\<rparr>,
        j_wind = Some \<lparr>j_speed = Some 3\<rparr>,
        j_weather = Some [\<lparr>j_description = Some ''clear sky''\<rparr>],
        j_rain = None\<rparr>] = Inr out
     \<and> run_total_slots out = 3
     \<and> map line_count (run_lines out) = [2, 1]
     \<and> map line_probability (run_lines out)
         = [2345624805922133 / 35184372088832, 2345624805922133 / 70368744177664]
     \<and> map line_shown (run_lines out) = [667 / 10, 333 / 10]"
    by (simp add: app_def df_row_def getitem0_def dict_get_def total_slots_def
        risk_counts_def Condition_def weather_risk_def value_counts_def sort_key_def
        probability_def round_double_def double_exponent.simps format_1f_def
        round_half_even_def Let_def)
  then obtain out where h: "app ''Mumbai'' ''2025-06-01''
      [\<lparr>j_dt_txt = Some ''2025-06-01 09:00:00'',
        j_main = Some \<lparr>j_temp = Some 25, j_humidity = Some 60\<rparr>,
        j_wind = Some \<lparr>j_speed = Some 3\<rparr>,
        j_weather = Some [\<lparr>j_description = Some ''few clouds''\<rparr>],
        j_rain = None\<rparr>,
       \<lparr>j_dt_txt = Some ''2025-06-01 12:00:00'',
        j_main = Some \<lparr>j_temp = Some 36, j_humidity = Some 40\<rparr>,
        j_wind = Some \<lparr>j_speed = Some 3\<rparr>,
        j_weather = Some [\<lparr>j_description = Some ''clear sky''\<rparr>],
        j_rain = None\<rparr>,
       \<lparr>j_dt_txt = Some ''2025-06-01 15:00:00'',
        j_main = Some \<lparr>j_temp = Some 36, j_humidity = Some 40\<rparr>,
        j_wind = Some \<lparr>j_speed = Some 3\<rparr>,
        j_weather = Some [\<lparr>j_description = Some ''clear sky''\<rparr>],
        j_rain = None\<rparr>] = Inr out
     \<and> run_total_slots out = 3
     \<and> map line_count (run_lines out) = [2, 1]
     \<and> map line_probability (run_lines out)
         = [2345624805922133 / 35184372088832, 2345624805922133 / 70368744177664]
     \<and> map line_shown (run_lines out) = [667 / 10, 333 / 10]" ..
  note props = probabilities_sum [OF h [THEN conjunct1]]
  show ?thesis
    by (rule exI [of _ out]) (intro conjI h [THEN conjunct1]
        h [THEN conjunct2, THEN conjunct1]
        h [THEN conjunct2, THEN conjunct2, THEN conjunct1]
        h [THEN conjunct2, THEN conjunct2, THEN conjunct2, THEN conjunct1]
        h [THEN conjunct2, THEN conjunct2, THEN conjunct2, THEN conjunct2]
        props [THEN conjunct1]
        props [THEN conjunct2, THEN conjunct2, THEN conjunct2, THEN conjunct2, THEN conjunct2,
          THEN conjunct2])
qed

text \<open>
  The claim as stated fails on a run of six slots of six different categories: each
  probability is the double 16.666666666666664, which is not 100/6 and is printed as
  16.7, and the six printed values sum to 100.2.
\<close>

theorem rounded_probabilities_counterexample:
  "\<exists>out. app ''Mumbai'' ''2025-06-01''
      [\<lparr>j_dt_txt = Some ''2025-06-01 03:00:00'',
        j_main = Some \<lparr>j_temp = Some 36, j_humidity = Some 50\<rparr>,
        j_wind = Some \<lparr>j_speed = Some 3\<rparr>,
        j_weather = Some [\<lparr>j_description = Some ''clear sky''\<rparr>],
        j_rain = None\<rparr>,
       \<lparr>j_dt_txt = Some ''2025-06-01 06:00:00'',
        j_main = Some \<lparr>j_temp = Some 5, j_humidity = Some 50\<rparr>,
        j_wind = Some \<lparr>j_speed = Some 3\<rparr>,
        j_weather = Some [\<lparr>j_description = Some ''clear sky''\<rparr>],
        j_rain = None\<rparr>,
       \<lparr>j_dt_txt = Some ''2025-06-01 09:00:00'',
        j_main = Some \<lparr>j_temp = Some 25, j_humidity = Some 50\<rparr>,
        j_wind = Some \<lparr>j_speed = Some 12\<rparr>,
        j_weather = Some [\<lparr>j_description = Some ''clear sky''\<rparr>],
        j_rain = None\<rparr>,
       \<lparr>j_dt_txt = Some ''2025-06-01 12:00:00'',
        j_main = Some \<lparr>j_temp = Some 25, j_humidity = Some 50\<rparr>,
        j_wind = Some \<lparr>j_speed = Some 3\<rparr>,
        j_weather = Some [\<lparr>j_description = Some ''moderate rain''\<rparr>],
        j_rain = Some \<lparr>j_3h = Some 5\<rparr>\<rparr>,
       \<lparr>j_dt_txt = Some ''2025-06-01 15:00:00'',
        j_main = Some \<lparr>j_temp = Some 25, j_humidity = Some 90\<rparr>,
        j_wind = Some \<lparr>j_speed = Some 3\<rparr>,
        j_weather = Some [\<lparr>j_description = Some ''mist''\<rparr>],
        j_rain = None\<rparr>,
       \<lparr>j_dt_txt = Some ''2025-06-01 18:00:00'',
        j_main = Some \<lparr>j_temp = Some 25, j_humidity = Some 50\<rparr>,
        j_wind = Some \<lparr>j_speed = Some 3\<rparr>,
        j_weather = Some [\<lparr>j_description = Some ''clear sky''\<rparr>],
        j_rain = None\<rparr>] = Inr out
     \<and> run_total_slots out = 6
     \<and> map line_count (run_lines out) = [1, 1, 1, 1, 1, 1]
     \<and> map line_probability (run_lines out)
         = [2345624805922133 / 140737488355328, 2345624805922133 / 140737488355328,
            2345624805922133 / 140737488355328, 2345624805922133 / 140737488355328,
            2345624805922133 / 140737488355328, 2345624805922133 / 140737488355328]
     \<and> (2345624805922133 / 140737488355328 :: real) \<noteq> 100 * 1 / 6
     \<and> map line_shown (run_lines out)
         = [167 / 10, 167 / 10, 167 / 10, 167 / 10, 167 / 10, 167 / 10]
     \<and> sum_list (map line_shown (run_lines out)) = 1002 / 10
     \<and> \<not> \<bar>sum_list (map line_shown (run_lines out)) - 100\<bar> \<le> 1 / 10"
  by (simp add: app_def df_row_def getitem0_def dict_get_def total_slots_def
        risk_counts_def Condition_def weather_risk_def value_counts_def sort_key_def
        probability_def round_double_def double_exponent.simps format_1f_def
        round_half_even_def Let_def)

section \<open>The summary\<close>

text \<open>
  C9. In every run that returns a summary, the summary is the base sentence, with the
  distinct categories in order of first occurrence joined by commas, followed by the
  advisory clause of each category present, one each, in the fixed order Very Hot,
  Very Cold, Very Windy, Very Wet, Very Uncomfortable, Comfortable; a category that is
  absent adds nothing.
\<close>

theorem summary_base_and_clauses:
  assumes "app p d fl = Inr out"
  shows "run_summary out = spec_summary p d (run_Condition out)"
proof -
  obtain rows where "run_Condition out = Condition rows" and "run_summary out = summary p d rows"
    using app_Inr_fields [OF assms] by blast
  then show ?thesis
    by (simp add: summary_spec)
qed

theorem summary_base_and_clauses_witness:
  "\<exists>out. app ''Mumbai'' ''2025-06-01''
      [\<lparr>j_dt_txt = Some ''2025-06-01 09:00:00'',
        j_main = Some \<lparr>j_temp = Some 25, j_humidity = Some 60\<rparr>,
        j_wind = Some \<lparr>j_speed = Some 3\<rparr>,
        j_weather = Some [\<lparr>j_description = Some ''few clouds''\<rparr>],
        j_rain = None\<rparr>,
       \<lparr>j_dt_txt = Some ''2025-06-01 12:00:00'',
        j_main = Some \<lparr>j_temp = Some 36, j_humidity = Some 40\<rparr>,
        j_wind = Some \<lparr>j_speed = Some 3\<rparr>,
        j_weather = Some [\<lparr>j_description = Some ''clear sky''\<rparr>],
        j_rain = None\<rparr>,
       \<lparr>j_dt_txt = Some ''2025-06-01 15:00:00'',
        j_main = Some \<lparr>j_temp = Some 36, j_humidity = Some 40\<rparr>,
        j_wind = Some \<lparr>j_speed = Some 3\<rparr>,
        j_weather = Some [\<lparr>j_description = Some ''clear sky''\<rparr>],
        j_rain = None\<rparr>] = Inr out
     \<and> run_Condition out = [''Comfortable'', ''Very Hot'', ''Very Hot'']
     \<and> run_summary out
         = ''For Mumbai on 2025-06-01, conditions are mostly: Comfortable, Very Hot.''
             @ advice_hot @ advice_comfortable"
proof -
  have "\<exists>out. app ''Mumbai'' ''2025-06-01''
      [\<lparr>j_dt_txt = Some ''2025-06-01 09:00:00'',
        j_main = Some \<lparr>j_temp = Some 25, j_humidity = Some 60\<rparr>,
        j_wind = Some \<lparr>j_speed = Some 3\<rparr>,
        j_weather = Some [\<lparr>j_description = Some ''few clouds''\<rparr>],
        j_rain = None\<rparr>,
       \<lparr>j_dt_txt = Some ''2025-06-01 12:00:00'',
        j_main = Some \<lparr>j_temp = Some 36, j_humidity = Some 40\<rparr>,
        j_wind = Some \<lparr>j_speed = Some 3\<rparr>,
        j_weather = Some [\<lparr>j_description = Some ''clear sky''\<rparr>],
        j_rain = None\<rparr>,
       \<lparr>j_dt_txt = Some ''2025-06-01 15:00:00'',
        j_main = Some \<lparr>j_temp = Some 36, j_humidity = Some 40\<rparr>,
        j_wind = Some \<lparr>j_speed = Some 3\<rparr>,
        j_weather = Some [\<lparr>j_description = Some ''clear sky''\<rparr>],
        j_rain = None\<rparr>] = Inr out
     \<and> run_Condition out = [''Comfortable'', ''Very Hot'', ''Very Hot'']"
    by (simp add: app_def df_row_def getitem0_def dict_get_def total_slots_def
        risk_counts_def Condition_def weather_risk_def value_counts_def sort_key_def
        probability_def)
  then obtain out where h: "app ''Mumbai'' ''2025-06-01''
      [\<lparr>j_dt_txt = Some ''2025-06-01 09:00:00'',
        j_main = Some \<lparr>j_temp = Some 25, j_humidity = Some 60\<rparr>,
        j_wind = Some \<lparr>j_speed = Some 3\<rparr>,
        j_weather = Some [\<lparr>j_description = Some ''few clouds''\<rparr>],
        j_rain = None\<rparr>,
       \<lparr>j_dt_txt = Some ''2025-06-01 12:00:00'',
        j_main = Some \<lparr>j_temp = Some 36, j_humidity = Some 40\<rparr>,
        j_wind = Some \<lparr>j_speed = Some 3\<rparr>,
        j_weather = Some [\<lparr>j_description = Some ''clear sky''\<rparr>],
        j_rain = None\<rparr>,
       \<lparr>j_dt_txt = Some ''2025-06-01 15:00:00'',
        j_main = Some \<lparr>j_temp = Some 36, j_humidity = Some 40\<rparr>,
        j_wind = Some \<lparr>j_speed = Some 3\<rparr>,
        j_weather = Some [\<lparr>j_description = Some ''clear sky''\<rparr>],
        j_rain = None\<rparr>] = Inr out
     \<and> run_Condition out = [''Comfortable'', ''Very Hot'', ''Very Hot'']" ..
  have "spec_summary ''Mumbai'' ''2025-06-01'' [''Comfortable'', ''Very Hot'', ''Very Hot'']
      = ''For Mumbai on 2025-06-01, conditions are mostly: Comfortable, Very Hot.''
             @ advice_hot @ advice_comfortable"
    by (simp add: spec_summary_def base_sentence_def advisory_clauses_def)
  then have "run_summary out
      = ''For Mumbai on 2025-06-01, conditions are mostly: Comfortable, Very Hot.''
             @ advice_hot @ advice_comfortable"
    using summary_base_and_clauses [OF h [THEN conjunct1]] h [THEN conjunct2] by simp
  then show ?thesis
    by (intro exI [of _ out] conjI h [THEN conjunct1] h [THEN conjunct2])
qed

end
